theory Spec2Isabelle
  imports Main
begin

section \<open>JavaScript values and the remote service\<close>

text \<open>
  A decoded JSON value. A \<open>JObj\<close> lists the own properties of the decoded object, each
  name once. Numbers are compared by value and tested against zero only; the absent value
  \<open>undefined\<close> is \<open>None\<close> of \<open>json option\<close>.
\<close>

datatype json =
    JNull
  | JBool bool
  | JNum int
  | JStr string
  | JArr "json list"
  | JObj "(string \<times> json) list"

text \<open>An \<open>Error\<close> object: the constructor's name and the \<open>message\<close> property.\<close>

datatype js_error = JsError string string

fun message :: "js_error \<Rightarrow> string" where
  "message (JsError nm msg) = msg"

text \<open>The body of a response: \<open>response.json()\<close> rejects on a malformed body.\<close>

datatype response_body = Malformed js_error | Decoded json

record response =
  status :: nat
  body :: response_body

text \<open>\<open>response.ok\<close> of the fetch API: the status is in the range 200-299.\<close>

definition ok :: "response \<Rightarrow> bool" where
  "ok r = (200 \<le> status r \<and> status r \<le> 299)"

text \<open>A call of \<open>fetch\<close> either rejects (transport failure) or resolves to a response.\<close>

datatype fetch_outcome = Rejected js_error | Responded response

text \<open>
  The remote service: the outcome of the \<open>n\<close>-th call of \<open>fetch\<close> (counted from 0 inside
  one operation) on a URL.
\<close>

type_synonym network = "nat \<Rightarrow> string \<Rightarrow> fetch_outcome"

text \<open>What an operation does besides returning: the calls, the waits and the log lines.\<close>

datatype event = EvFetch string | EvSleep nat | EvConsoleError js_error

definition BASE_URL :: string where
  "BASE_URL = ''https://www.themealdb.com/api/json/v1/1''"

subsection \<open>Truthiness and property reads\<close>

fun truthy :: "json \<Rightarrow> bool" where
  "truthy JNull = False"
| "truthy (JBool b) = b"
| "truthy (JNum n) = (n \<noteq> 0)"
| "truthy (JStr s) = (s \<noteq> [])"
| "truthy (JArr xs) = True"
| "truthy (JObj fs) = True"

fun truthy_opt :: "json option \<Rightarrow> bool" where
  "truthy_opt None = False"
| "truthy_opt (Some v) = truthy v"

text \<open>
  \<open>v.name\<close> for the data properties read by the client (\<open>meals\<close>, \<open>idMeal\<close>, \<open>ok\<close>,
  \<open>strCategory\<close>): a TypeError on \<open>null\<close>, the own property of an object, \<open>undefined\<close>
  on every other value.
\<close>

fun get_prop :: "json \<Rightarrow> string \<Rightarrow> js_error + json option" where
  "get_prop JNull name = Inl (JsError ''TypeError'' (''Cannot read properties of null (reading '' @ name @ '')''))"
| "get_prop (JObj fs) name = Inr (map_of fs name)"
| "get_prop v name = Inr None"

text \<open>\<open>v?.name\<close>: \<open>undefined\<close> on \<open>null\<close> instead of the TypeError.\<close>

fun opt_prop :: "json \<Rightarrow> string \<Rightarrow> json option" where
  "opt_prop (JObj fs) name = map_of fs name"
| "opt_prop v name = None"

text \<open>\<open>x || []\<close> and \<open>x || null\<close>.\<close>

fun or_empty :: "json option \<Rightarrow> json" where
  "or_empty None = JArr []"
| "or_empty (Some v) = (if truthy v then v else JArr [])"

fun or_null :: "json option \<Rightarrow> json" where
  "or_null None = JNull"
| "or_null (Some v) = (if truthy v then v else JNull)"

section \<open>The fan-out search: searchMealsByFirstLetter\<close>

text \<open>
  The async arrow function run for one letter, given the outcome of its \<open>fetch\<close>: every
  failure (rejection, non-ok status, malformed body, TypeError on a \<open>null\<close> body) is
  caught inside the arrow function and becomes the empty array.
\<close>

definition letter_try :: "fetch_outcome \<Rightarrow> js_error + json" where
  "letter_try outcome =
     (case outcome of
        Rejected e \<Rightarrow> Inl e
      | Responded r \<Rightarrow>
          if \<not> ok r then Inr (JArr [])
          else (case body r of
                  Malformed e \<Rightarrow> Inl e
                | Decoded info \<Rightarrow>
                    (case get_prop info ''meals'' of
                       Inl e \<Rightarrow> Inl e
                     | Inr m \<Rightarrow> Inr (or_empty m))))"

definition letter_call :: "fetch_outcome \<Rightarrow> json" where
  "letter_call outcome = (case letter_try outcome of Inl e \<Rightarrow> JArr [] | Inr v \<Rightarrow> v)"

text \<open>\<open>letter.charAt(0)\<close>: the first character, or the empty string.\<close>

definition charAt0 :: "string \<Rightarrow> string" where
  "charAt0 s = take 1 s"

definition letter_url :: "string \<Rightarrow> string" where
  "letter_url letter = BASE_URL @ ''/search.php?f='' @ charAt0 letter"

text \<open>
  \<open>letters.map(...)\<close> then \<open>Promise.all\<close>: the calls are issued in the order of the
  letters, and the results are collected in that order.
\<close>

definition letter_results :: "network \<Rightarrow> string list \<Rightarrow> json list" where
  "letter_results net letters =
     map (\<lambda>(i, letter). letter_call (net i (letter_url letter))) (enumerate 0 letters)"

text \<open>\<open>results.flat()\<close>: one level of arrays is spread, any other value stays an element.\<close>

fun spread :: "json \<Rightarrow> json list" where
  "spread (JArr xs) = xs"
| "spread v = [v]"

definition flat :: "json list \<Rightarrow> json list" where
  "flat results = concat (map spread results)"

text \<open>
  The key of a \<open>Map\<close> (SameValueZero): primitives are compared by value, an object or
  array by reference. Every object of a decoded body is a reference of its own, so the
  object-valued \<open>idMeal\<close> of the \<open>i\<close>-th element of \<open>all\<close> is the reference \<open>KRef i\<close>.
\<close>

datatype mapkey = KNull | KBool bool | KNum int | KStr string | KRef nat

fun key_of :: "nat \<Rightarrow> json \<Rightarrow> mapkey" where
  "key_of i JNull = KNull"
| "key_of i (JBool b) = KBool b"
| "key_of i (JNum n) = KNum n"
| "key_of i (JStr s) = KStr s"
| "key_of i (JArr xs) = KRef i"
| "key_of i (JObj fs) = KRef i"

text \<open>\<open>meal => meal?.idMeal ? [meal.idMeal, meal] : [null, null]\<close>\<close>

definition meal_entry :: "nat \<Rightarrow> json \<Rightarrow> mapkey \<times> json" where
  "meal_entry i meal =
     (case opt_prop meal ''idMeal'' of
        None \<Rightarrow> (KNull, JNull)
      | Some v \<Rightarrow> if truthy v then (key_of i v, meal) else (KNull, JNull))"

definition meal_entries :: "json list \<Rightarrow> (mapkey \<times> json) list" where
  "meal_entries all = map (\<lambda>(i, meal). meal_entry i meal) (enumerate 0 all)"

text \<open>
  A \<open>Map\<close> as the list of its entries in insertion order. \<open>set\<close> on a key that is present
  replaces the value and keeps the position; on a new key it appends.
\<close>

fun map_set :: "'k \<Rightarrow> 'v \<Rightarrow> ('k \<times> 'v) list \<Rightarrow> ('k \<times> 'v) list" where
  "map_set k v [] = [(k, v)]"
| "map_set k v ((k', v') # es) =
     (if k' = k then (k, v) # es else (k', v') # map_set k v es)"

text \<open>\<open>new Map(entries)\<close> calls \<open>set\<close> for each entry in order.\<close>

definition new_Map :: "('k \<times> 'v) list \<Rightarrow> ('k \<times> 'v) list" where
  "new_Map entries = foldl (\<lambda>m (k, v). map_set k v m) [] entries"

text \<open>\<open>Array.from(new Map(...).values()).filter(meal => meal !== null)\<close>\<close>

definition onlyOne :: "json list \<Rightarrow> json list" where
  "onlyOne all = filter (\<lambda>meal. meal \<noteq> JNull) (map snd (new_Map (meal_entries all)))"

text \<open>
  The whole operation. With \<open>letters\<close> an array of strings nothing in the outer \<open>try\<close>
  block throws, so its \<open>catch\<close> is not taken.
\<close>

definition searchMealsByFirstLetter :: "network \<Rightarrow> string list \<Rightarrow> json list" where
  "searchMealsByFirstLetter net letters = onlyOne (flat (letter_results net letters))"

text \<open>
  The order of the keys of the resulting \<open>Map\<close>: each key once, at the place of its first
  occurrence. The value a \<open>Map\<close> holds for a key is the one of the last \<open>set\<close>.
\<close>

fun first_occurrences :: "'a list \<Rightarrow> 'a list" where
  "first_occurrences [] = []"
| "first_occurrences (x # xs) = x # first_occurrences (removeAll x xs)"

definition last_value :: "'k \<Rightarrow> ('k \<times> 'v) list \<Rightarrow> 'v" where
  "last_value k es = snd (last (filter (\<lambda>e. fst e = k) es))"

text \<open>
  The de-duplication as the specification words it: of the records that share an id, the
  first one seen is kept.
\<close>

fun keep_first_spec :: "json list \<Rightarrow> json list" where
  "keep_first_spec [] = []"
| "keep_first_spec (m # ms) =
     m # keep_first_spec (filter (\<lambda>x. opt_prop x ''idMeal'' \<noteq> opt_prop m ''idMeal'') ms)"

text \<open>
  A per-key call fails when the transport fails (rejection or non-ok status) or the body
  cannot be used (malformed, or \<open>null\<close>, on which reading \<open>meals\<close> throws).
\<close>

definition call_failed :: "fetch_outcome \<Rightarrow> bool" where
  "call_failed outcome =
     (case outcome of
        Rejected e \<Rightarrow> True
      | Responded r \<Rightarrow>
          \<not> ok r \<or> (case body r of Malformed e \<Rightarrow> True | Decoded info \<Rightarrow> info = JNull))"

text \<open>
  The records of a call that succeeded, as the specification words them: the elements of
  the list field \<open>meals\<close> of the decoded body, none when the field is \<open>null\<close> or absent.
\<close>

definition records_of :: "fetch_outcome \<Rightarrow> json list" where
  "records_of outcome =
     (case outcome of
        Rejected e \<Rightarrow> []
      | Responded r \<Rightarrow>
          (case body r of
             Malformed e \<Rightarrow> []
           | Decoded info \<Rightarrow>
               (case opt_prop info ''meals'' of
                  None \<Rightarrow> []
                | Some v \<Rightarrow> if truthy v then spread v else [])))"

section \<open>Rendering values in template literals\<close>

definition digit :: "nat \<Rightarrow> char" where
  "digit d = ''0123456789'' ! d"

fun decimal :: "nat \<Rightarrow> string" where
  "decimal n = (if n < 10 then [digit n] else decimal (n div 10) @ [digit (n mod 10)])"

fun join_comma :: "string list \<Rightarrow> string" where
  "join_comma [] = []"
| "join_comma [s] = s"
| "join_comma (s # t # ss) = s @ '','' @ join_comma (t # ss)"

text \<open>
  ToString of a decoded value: a number in decimal (the numbers of the model are
  integers), an array as its elements joined with commas, \<open>null\<close> elements as the empty
  string, an object as \<open>[object Object]\<close>.
\<close>

fun to_string :: "json \<Rightarrow> string" where
  "to_string JNull = ''null''"
| "to_string (JBool b) = (if b then ''true'' else ''false'')"
| "to_string (JNum n) = (if n < 0 then ''-'' @ decimal (nat (- n)) else decimal (nat n))"
| "to_string (JStr s) = s"
| "to_string (JArr xs) = join_comma (map (\<lambda>x. if x = JNull then [] else to_string x) xs)"
| "to_string (JObj fs) = ''[object Object]''"

fun to_string_opt :: "json option \<Rightarrow> string" where
  "to_string_opt None = ''undefined''"
| "to_string_opt (Some v) = to_string v"

section \<open>The name search: searchMealsByName\<close>

text \<open>
  \<open>encodeURIComponent\<close> is a builtin of the platform and a parameter \<open>enc\<close> of the model.
\<close>

definition name_url :: "(string \<Rightarrow> string) \<Rightarrow> string \<Rightarrow> string" where
  "name_url enc query = BASE_URL @ ''/search.php?s='' @ enc query"

definition searchMealsByName_try ::
  "(string \<Rightarrow> string) \<Rightarrow> network \<Rightarrow> string \<Rightarrow> js_error + json" where
  "searchMealsByName_try enc net query =
     (case net 0 (name_url enc query) of
        Rejected e \<Rightarrow> Inl e
      | Responded r \<Rightarrow>
          if \<not> ok r then Inl (JsError ''Error'' (''Error: '' @ decimal (status r)))
          else (case body r of
                  Malformed e \<Rightarrow> Inl e
                | Decoded data \<Rightarrow>
                    (case get_prop data ''meals'' of
                       Inl e \<Rightarrow> Inl e
                     | Inr m \<Rightarrow> Inr (or_empty m))))"

definition searchMealsByName :: "(string \<Rightarrow> string) \<Rightarrow> network \<Rightarrow> string \<Rightarrow> json" where
  "searchMealsByName enc net query =
     (case searchMealsByName_try enc net query of Inl error \<Rightarrow> JArr [] | Inr v \<Rightarrow> v)"

section \<open>The retry lookup: getMealById\<close>

definition lookup_url :: "string \<Rightarrow> string" where
  "lookup_url meal_id = BASE_URL @ ''/lookup.php?i='' @ meal_id"

text \<open>\<open>v[0]\<close> on a truthy value.\<close>

fun first_elem :: "json \<Rightarrow> json option" where
  "first_elem (JArr xs) = (case xs of [] \<Rightarrow> None | x # rest \<Rightarrow> Some x)"
| "first_elem (JStr s) = (case s of [] \<Rightarrow> None | c # rest \<Rightarrow> Some (JStr [c]))"
| "first_elem (JObj fs) = map_of fs ''0''"
| "first_elem v = None"

text \<open>
  One pass through the \<open>try\<close> block, given the outcome of its \<open>fetch\<close>: it returns
  \<open>data.meals ? data.meals[0] || null : null\<close>, or sees a non-ok status, or throws.
\<close>

datatype attempt = Returned json | NotOk nat | Threw js_error

definition lookup_attempt :: "fetch_outcome \<Rightarrow> attempt" where
  "lookup_attempt outcome =
     (case outcome of
        Rejected e \<Rightarrow> Threw e
      | Responded r \<Rightarrow>
          if \<not> ok r then NotOk (status r)
          else (case body r of
                  Malformed e \<Rightarrow> Threw e
                | Decoded data \<Rightarrow>
                    (case get_prop data ''meals'' of
                       Inl e \<Rightarrow> Threw e
                     | Inr None \<Rightarrow> Returned JNull
                     | Inr (Some ms) \<Rightarrow>
                         Returned (if truthy ms then or_null (first_elem ms) else JNull))))"

text \<open>The wait of one second before the recursive call, and the call's result passed on.\<close>

definition after_wait :: "string \<Rightarrow> json \<times> event list \<Rightarrow> json \<times> event list" where
  "after_wait url r = (fst r, EvFetch url # EvSleep 1000 # snd r)"

text \<open>
  \<open>getMealById(id, attempts)\<close> where \<open>n\<close> calls of \<open>fetch\<close> were made before. On a non-ok
  status with \<open>attempts > 1\<close> the \<open>try\<close> block itself waits and recurses; otherwise it
  throws, and the \<open>catch\<close> block waits and recurses when \<open>attempts > 1\<close>, else logs and
  returns \<open>null\<close>.
\<close>

function getMealById_from :: "network \<Rightarrow> string \<Rightarrow> int \<Rightarrow> nat \<Rightarrow> json \<times> event list" where
  "getMealById_from net meal_id attempts n =
     (case lookup_attempt (net n (lookup_url meal_id)) of
        Returned v \<Rightarrow> (v, [EvFetch (lookup_url meal_id)])
      | NotOk st \<Rightarrow>
          if attempts > 1
          then after_wait (lookup_url meal_id) (getMealById_from net meal_id (attempts - 1) (Suc n))
          else (JNull, [EvFetch (lookup_url meal_id),
                        EvConsoleError (JsError ''Error'' (''Status '' @ decimal st))])
      | Threw error \<Rightarrow>
          if attempts > 1
          then after_wait (lookup_url meal_id) (getMealById_from net meal_id (attempts - 1) (Suc n))
          else (JNull, [EvFetch (lookup_url meal_id), EvConsoleError error]))"
  by pat_completeness auto
termination
  by (relation "measure (\<lambda>(net, meal_id, attempts, n). nat attempts)") auto

declare getMealById_from.simps [simp del]

definition getMealById :: "network \<Rightarrow> string \<Rightarrow> int \<Rightarrow> json \<times> event list" where
  "getMealById net meal_id attempts = getMealById_from net meal_id attempts 0"

text \<open>A remote attempt fails by transport: the call rejects or the status is not ok.\<close>

definition transport_failed :: "fetch_outcome \<Rightarrow> bool" where
  "transport_failed outcome =
     (case outcome of Rejected e \<Rightarrow> True | Responded r \<Rightarrow> \<not> ok r)"

text \<open>An attempt that does not return: the \<open>try\<close> block throws or sees a non-ok status.\<close>

definition attempt_failed :: "fetch_outcome \<Rightarrow> bool" where
  "attempt_failed outcome =
     (case lookup_attempt outcome of Returned v \<Rightarrow> False | NotOk st \<Rightarrow> True | Threw e \<Rightarrow> True)"

section \<open>The timeout race: getMealsByIngredient\<close>

definition ingredient_url :: "(string \<Rightarrow> string) \<Rightarrow> string \<Rightarrow> string" where
  "ingredient_url enc ingredient = BASE_URL @ ''/filter.php?i='' @ enc ingredient"

text \<open>
  The promise \<open>fetch(...).then(...)\<close>: it is fulfilled with a value or rejected with an
  error. A non-ok status is logged and fulfils it with the empty array.
\<close>

definition ingredient_call :: "fetch_outcome \<Rightarrow> js_error + json" where
  "ingredient_call outcome =
     (case outcome of
        Rejected e \<Rightarrow> Inl e
      | Responded result \<Rightarrow>
          if \<not> ok result then Inr (JArr [])
          else (case body result of
                  Malformed e \<Rightarrow> Inl e
                | Decoded info \<Rightarrow>
                    (case get_prop info ''meals'' of
                       Inl e \<Rightarrow> Inl e
                     | Inr m \<Rightarrow> Inr (or_empty m))))"

definition timeout_message :: string where
  "timeout_message = ''cant found recipe on time''"

text \<open>
  \<open>setTimeout(f, ms)\<close> of the platform: a delay below 1 or above \<open>2^31 - 1\<close> is 1.
\<close>

definition timer_delay :: "nat \<Rightarrow> nat" where
  "timer_delay ms = (if ms < 1 \<or> 2147483647 < ms then 1 else ms)"

text \<open>
  \<open>Promise.race([promise, time])\<close>: \<open>promise\<close> settles \<open>settle_ms\<close> milliseconds after
  the call, the timer rejects after its delay, and the first to settle decides. When both
  are due at the same time the timer is taken to be first.
\<close>

definition race :: "nat \<Rightarrow> js_error + json \<Rightarrow> nat \<Rightarrow> js_error + json" where
  "race settle_ms promise timeoutMs =
     (if settle_ms < timer_delay timeoutMs then promise
      else Inl (JsError ''Error'' timeout_message))"

text \<open>
  \<open>clock n url\<close> is the time in milliseconds that the promise of the \<open>n\<close>-th call needs to
  settle. The \<open>catch\<close> block tells the timer's error from any other by its message.
\<close>

definition getMealsByIngredient ::
  "(string \<Rightarrow> string) \<Rightarrow> network \<Rightarrow> (nat \<Rightarrow> string \<Rightarrow> nat) \<Rightarrow> string \<Rightarrow> nat \<Rightarrow> json" where
  "getMealsByIngredient enc net clock ingredient timeoutMs =
     (case race (clock 0 (ingredient_url enc ingredient))
             (ingredient_call (net 0 (ingredient_url enc ingredient))) timeoutMs of
        Inr v \<Rightarrow> v
      | Inl error \<Rightarrow>
          if message error = timeout_message then JStr ''took too long''
          else JStr ''An unexpected error has been occurred'')"

section \<open>Related recipes and the random recipe\<close>

text \<open>
  An identifier at the place where it is read: bound to a value, declared later in the
  block by \<open>const\<close> (reading it throws), or bound nowhere (reading it throws).
\<close>

datatype 'a binding = Bound 'a | Uninitialised | Unbound

fun read_var :: "string \<Rightarrow> 'a binding \<Rightarrow> js_error + 'a" where
  "read_var x (Bound v) = Inr v"
| "read_var x Uninitialised =
     Inl (JsError ''ReferenceError'' (''Cannot access '' @ x @ '' before initialization''))"
| "read_var x Unbound = Inl (JsError ''ReferenceError'' (x @ '' is not defined''))"

definition category_url :: "(string \<Rightarrow> string) \<Rightarrow> json option \<Rightarrow> string" where
  "category_url enc category = BASE_URL @ ''/filter.php?c='' @ enc (to_string_opt category)"

text \<open>
  \<open>a !== b\<close> negated, for values that come from different decoded bodies: primitives are
  equal by value, two objects or arrays are never the same reference.
\<close>

fun strict_eq :: "json option \<Rightarrow> json option \<Rightarrow> bool" where
  "strict_eq None None = True"
| "strict_eq (Some (JArr xs)) b = False"
| "strict_eq (Some (JObj fs)) b = False"
| "strict_eq (Some a) (Some b) = (a = b)"
| "strict_eq a b = False"

text \<open>\<open>meals.filter(meal => meal.idMeal !== recipe.idMeal)\<close>; a \<open>null\<close> element throws.\<close>

fun filter_other :: "json option \<Rightarrow> json list \<Rightarrow> js_error + json list" where
  "filter_other rid [] = Inr []"
| "filter_other rid (meal # ms) =
     (case get_prop meal ''idMeal'' of
        Inl e \<Rightarrow> Inl e
      | Inr mid \<Rightarrow>
          (case filter_other rid ms of
             Inl e \<Rightarrow> Inl e
           | Inr rest \<Rightarrow> Inr (if strict_eq mid rid then rest else meal # rest)))"

text \<open>\<open>xs.slice(0, limit)\<close>; a negative limit counts from the end.\<close>

definition slice0 :: "int \<Rightarrow> 'a list \<Rightarrow> 'a list" where
  "slice0 limit xs =
     (if limit < 0 then take (nat (int (length xs) + limit)) xs else take (nat limit) xs)"

text \<open>
  \<open>const filt = ans.meals.filter(...); return filt.slice(0, limit)\<close>: \<open>filter\<close> exists on
  arrays only.
\<close>

definition related_of :: "json \<Rightarrow> json \<Rightarrow> int binding \<Rightarrow> js_error + json option" where
  "related_of ans recipe limit =
     (case get_prop ans ''meals'' of
        Inl e \<Rightarrow> Inl e
      | Inr (Some (JArr meals)) \<Rightarrow>
          (case get_prop recipe ''idMeal'' of
             Inl e \<Rightarrow> Inl e
           | Inr rid \<Rightarrow>
               (case filter_other rid meals of
                  Inl e \<Rightarrow> Inl e
                | Inr filt \<Rightarrow>
                    (case read_var ''limit'' limit of
                       Inl e \<Rightarrow> Inl e
                     | Inr l \<Rightarrow> Inr (Some (JArr (slice0 l filt))))))
      | Inr other \<Rightarrow> Inl (JsError ''TypeError'' ''ans.meals.filter is not a function''))"

text \<open>
  The \<open>try\<close> block that \<open>getRelatedRecipes\<close> and \<open>getRandomMeal\<close> share word for word,
  over the bindings of the identifiers \<open>recipe\<close>, \<open>limit\<close> and \<open>response\<close> that it
  reads. The identifier \<open>ans\<close> is read in the \<open>throw\<close> before its \<open>const\<close> declaration.
  The result \<open>None\<close> is \<open>undefined\<close>: the function ends without a \<open>return\<close>.
\<close>

definition related_try ::
  "(string \<Rightarrow> string) \<Rightarrow> network \<Rightarrow> json binding \<Rightarrow> int binding \<Rightarrow> response binding
     \<Rightarrow> (js_error + json option) \<times> event list" where
  "related_try enc net recipe limit response =
     (case read_var ''recipe'' recipe of
        Inl e \<Rightarrow> (Inl e, [])
      | Inr rv \<Rightarrow>
          (case get_prop rv ''ok'' of
             Inl e \<Rightarrow> (Inl e, [])
           | Inr okv \<Rightarrow>
               if \<not> truthy_opt okv then (Inr None, [])
               else (case get_prop rv ''strCategory'' of
                       Inl e \<Rightarrow> (Inl e, [])
                     | Inr category \<Rightarrow>
                         if \<not> truthy_opt category then (Inr None, [])
                         else (case net 0 (category_url enc category) of
                                 Rejected e \<Rightarrow> (Inl e, [EvFetch (category_url enc category)])
                               | Responded promise \<Rightarrow>
                                   (if \<not> ok promise
                                    then (case read_var ''ans'' (Uninitialised :: json binding) of
                                            Inl e \<Rightarrow> Inl e
                                          | Inr ans \<Rightarrow>
                                              (case get_prop ans ''status'' of
                                                 Inl e \<Rightarrow> Inl e
                                               | Inr st \<Rightarrow>
                                                   Inl (JsError ''Error''
                                                     (''category not found. status '' @ to_string_opt st))))
                                    else (case read_var ''response'' response of
                                            Inl e \<Rightarrow> Inl e
                                          | Inr resp \<Rightarrow>
                                              (case body resp of
                                                 Malformed e \<Rightarrow> Inl e
                                               | Decoded ans \<Rightarrow> related_of ans rv limit)),
                                    [EvFetch (category_url enc category)])))))"

text \<open>The \<open>catch\<close> block of both functions: log the message, return the empty array.\<close>

definition related_catch ::
  "(js_error + json option) \<times> event list \<Rightarrow> json option \<times> event list" where
  "related_catch r =
     (case fst r of
        Inl error \<Rightarrow> (Some (JArr []), snd r @ [EvConsoleError error])
      | Inr v \<Rightarrow> (v, snd r))"

text \<open>
  \<open>getRelatedRecipes(recipe, limit)\<close>: its parameters bind \<open>recipe\<close> and \<open>limit\<close>;
  \<open>response\<close> is bound neither in the function nor in the module.
\<close>

definition getRelatedRecipes ::
  "(string \<Rightarrow> string) \<Rightarrow> network \<Rightarrow> json \<Rightarrow> int \<Rightarrow> json option \<times> event list" where
  "getRelatedRecipes enc net recipe limit =
     related_catch (related_try enc net (Bound recipe) (Bound limit) Unbound)"

text \<open>
  \<open>getRandomMeal()\<close>: it has no parameters, and the module binds none of \<open>recipe\<close>,
  \<open>limit\<close> and \<open>response\<close>.
\<close>

definition getRandomMeal :: "(string \<Rightarrow> string) \<Rightarrow> network \<Rightarrow> json option \<times> event list" where
  "getRandomMeal enc net = related_catch (related_try enc net Unbound Unbound Unbound)"

section \<open>The cache-or-fetch coordinator\<close>

text \<open>
  Modelled from the spec: the cache entry and the cache store of the module \<open>cache.js\<close>,
  which is not among the sources. An entry holds a value, the time it was stored at and
  its time to live; the store maps each key to at most one entry.
\<close>

record 'v cache_entry =
  entry_value :: 'v
  storedAt :: int
  ttl :: int

type_synonym 'v cache_store = "string \<Rightarrow> 'v cache_entry option"

text \<open>
  Modelled from the spec: an entry that is absent, or for which \<open>now - storedAt > ttl\<close>,
  is treated as a miss.
\<close>

definition fresh_entry :: "int \<Rightarrow> 'v cache_store \<Rightarrow> string \<Rightarrow> 'v option" where
  "fresh_entry now st key =
     (case st key of
        None \<Rightarrow> None
      | Some e \<Rightarrow> if now - storedAt e > ttl e then None else Some (entry_value e))"

text \<open>
  Modelled from the spec: the state the coordinator works on, the store and the number of
  producer invocations made so far.
\<close>

record 'v coordinator =
  store :: "'v cache_store"
  producer_calls :: nat

text \<open>
  Modelled from the spec: \<open>getOrFetch(key, producer)\<close> of the coordinator
  (\<open>getCachedOrFetch\<close> of \<open>cache.js\<close>, not among the sources). A fresh entry is returned
  without invoking the producer. Otherwise the producer is invoked once; its result is
  stored under the key with the fixed default time to live and returned; if it fails,
  nothing is stored and the failure is passed to the caller as it is. \<open>producer i\<close> is what
  the producer yields when its invocation is the \<open>i\<close>-th one.
\<close>

definition getCachedOrFetch ::
  "int \<Rightarrow> string \<Rightarrow> (nat \<Rightarrow> 'e + 'v) \<Rightarrow> int \<Rightarrow> 'v coordinator \<Rightarrow> ('e + 'v) \<times> 'v coordinator" where
  "getCachedOrFetch default_ttl key producer now c =
     (case fresh_entry now (store c) key of
        Some v \<Rightarrow> (Inr v, c)
      | None \<Rightarrow>
          (case producer (producer_calls c) of
             Inl failure \<Rightarrow> (Inl failure, c\<lparr>producer_calls := Suc (producer_calls c)\<rparr>)
           | Inr v \<Rightarrow>
               (Inr v,
                c\<lparr>store := (store c)(key \<mapsto> \<lparr>entry_value = v, storedAt = now, ttl = default_ttl\<rparr>),
                  producer_calls := Suc (producer_calls c)\<rparr>)))"

section \<open>Example inputs\<close>

definition ok_response :: "json \<Rightarrow> fetch_outcome" where
  "ok_response data = Responded \<lparr>status = 200, body = Decoded data\<rparr>"

definition fetch_failed :: js_error where
  "fetch_failed = JsError ''TypeError'' ''fetch failed''"

definition plain_enc :: "string \<Rightarrow> string" where
  "plain_enc s = s"

definition quick_clock :: "nat \<Rightarrow> string \<Rightarrow> nat" where
  "quick_clock n url = 100"

definition slow_clock :: "nat \<Rightarrow> string \<Rightarrow> nat" where
  "slow_clock n url = 9000"

definition meal_a :: json where
  "meal_a = JObj [(''idMeal'', JStr ''52772''), (''strMeal'', JStr ''Apple Frangipan Tart'')]"

definition meal_b :: json where
  "meal_b = JObj [(''idMeal'', JStr ''52772''), (''strMeal'', JStr ''Bakewell tart'')]"

definition meal_c :: json where
  "meal_c = JObj [(''idMeal'', JStr ''52893''), (''strMeal'', JStr ''Carrot Cake'')]"

definition nameless :: json where
  "nameless = JObj [(''strMeal'', JStr ''Soup of the day'')]"

definition dessert :: json where
  "dessert = JObj [(''idMeal'', JStr ''52772''), (''strCategory'', JStr ''Dessert'')]"

text \<open>Two letters whose results hold different records under the same id.\<close>

definition dup_net :: network where
  "dup_net n url =
     (if n = 0 then ok_response (JObj [(''meals'', JArr [meal_a])])
      else ok_response (JObj [(''meals'', JArr [meal_b])]))"

text \<open>Three calls of which the second is rejected.\<close>

definition partial_net :: network where
  "partial_net n url =
     (if n = 0 then ok_response (JObj [(''meals'', JArr [meal_a])])
      else if n = 1 then Rejected fetch_failed
      else ok_response (JObj [(''meals'', JArr [meal_c])]))"

text \<open>
  Three calls of which the second is rejected and the first holds a record without an id.
\<close>

definition mixed_net :: network where
  "mixed_net n url =
     (if n = 0 then ok_response (JObj [(''meals'', JArr [nameless, meal_a])])
      else if n = 1 then Rejected fetch_failed
      else ok_response (JObj [(''meals'', JArr [meal_c])]))"

text \<open>A successful call whose list holds a record without an id.\<close>

definition nameless_net :: network where
  "nameless_net n url = ok_response (JObj [(''meals'', JArr [nameless, meal_a])])"

text \<open>Every call is rejected.\<close>

definition down_net :: network where
  "down_net n url = Rejected fetch_failed"

text \<open>The first call is answered with status 503, the later ones with one record.\<close>

definition flaky_net :: network where
  "flaky_net n url =
     (if n = 0
      then Responded \<lparr>status = 503, body = Malformed (JsError ''SyntaxError'' ''Unexpected token'')\<rparr>
      else ok_response (JObj [(''meals'', JArr [meal_a])]))"

text \<open>Every call is answered with status 500.\<close>

definition error_net :: network where
  "error_net n url =
     Responded \<lparr>status = 500, body = Decoded (JObj [(''error'', JStr ''internal'')])\<rparr>"

text \<open>Every call is answered with \<open>{"meals": null}\<close>.\<close>

definition no_meals_net :: network where
  "no_meals_net n url = ok_response (JObj [(''meals'', JNull)])"

text \<open>An empty cache and a producer that fails.\<close>

definition empty_coordinator :: "json coordinator" where
  "empty_coordinator = \<lparr>store = (\<lambda>key. None), producer_calls = 0\<rparr>"

definition failing_producer :: "nat \<Rightarrow> js_error + json" where
  "failing_producer i = Inl fetch_failed"

section \<open>Properties of the Map constructor\<close>

lemma set_first_occurrences: "set (first_occurrences xs) = set xs"
  by (induction xs rule: first_occurrences.induct) auto

lemma distinct_first_occurrences: "distinct (first_occurrences xs)"
  by (induction xs rule: first_occurrences.induct) (auto simp: set_first_occurrences)

lemma first_occurrences_removeAll:
  "first_occurrences (removeAll y xs) = removeAll y (first_occurrences xs)"
  by (induction xs rule: first_occurrences.induct)
     (auto simp: removeAll_filter_not_eq filter_filter conj_commute cong: filter_cong)

lemma first_occurrences_snoc:
  "first_occurrences (xs @ [k]) =
     (if k \<in> set xs then first_occurrences xs else first_occurrences xs @ [k])"
  by (induction xs rule: first_occurrences.induct) (auto simp: first_occurrences_removeAll)

lemma map_set_keys:
  "map fst (map_set k v m) = (if k \<in> fst ` set m then map fst m else map fst m @ [k])"
  by (induction m) force+

lemma map_of_map_set: "map_of (map_set k v m) = (map_of m)(k \<mapsto> v)"
  by (induction m) (auto simp: fun_eq_iff)

lemma new_Map_snoc: "new_Map (es @ [(k, v)]) = map_set k v (new_Map es)"
  by (simp add: new_Map_def)

lemma new_Map_keys: "map fst (new_Map es) = first_occurrences (map fst es)"
proof (induction es rule: rev_induct)
  case Nil
  show ?case by (simp add: new_Map_def)
next
  case (snoc e es)
  obtain k v where e: "e = (k, v)" by (cases e)
  have "set (map fst (new_Map es)) = set (map fst es)"
    by (simp add: snoc.IH set_first_occurrences)
  then have "k \<in> fst ` set (new_Map es) \<longleftrightarrow> k \<in> fst ` set es" by simp
  then show ?case
    by (simp add: e new_Map_snoc map_set_keys snoc.IH first_occurrences_snoc)
qed

lemma new_Map_lookup: "map_of (new_Map es) = map_of (rev es)"
proof (induction es rule: rev_induct)
  case Nil
  show ?case by (simp add: new_Map_def)
next
  case (snoc e es)
  obtain k v where e: "e = (k, v)" by (cases e)
  show ?case by (simp add: e new_Map_snoc map_of_map_set snoc.IH fun_eq_iff)
qed

lemma map_of_rev_last_value:
  "k \<in> fst ` set es \<Longrightarrow> map_of (rev es) k = Some (last_value k es)"
proof (induction es rule: rev_induct)
  case Nil
  then show ?case by simp
next
  case (snoc e es)
  then show ?case by (cases e) (auto simp: last_value_def)
qed

lemma alist_by_keys:
  "distinct (map fst m) \<Longrightarrow> m = map (\<lambda>k. (k, the (map_of m k))) (map fst m)"
proof (induction m)
  case Nil
  show ?case by simp
next
  case (Cons e m)
  obtain a b where e: "e = (a, b)" by (cases e)
  from Cons.prems have na: "a \<notin> fst ` set m" and d: "distinct (map fst m)"
    by (simp_all add: e)
  have "map (\<lambda>k. (k, the (map_of (e # m) k))) (map fst m)
      = map (\<lambda>k. (k, the (map_of m k))) (map fst m)"
    by (rule map_cong) (use na in \<open>auto simp: e\<close>)
  also have "\<dots> = m" using Cons.IH [OF d] by simp
  finally show ?case by (simp add: e)
qed

lemma new_Map_eq:
  "new_Map es = map (\<lambda>k. (k, last_value k es)) (first_occurrences (map fst es))"
proof -
  let ?m = "new_Map es"
  have d: "distinct (map fst ?m)" by (simp add: new_Map_keys distinct_first_occurrences)
  have "?m = map (\<lambda>k. (k, the (map_of ?m k))) (map fst ?m)" by (rule alist_by_keys [OF d])
  also have "\<dots> = map (\<lambda>k. (k, the (map_of (rev es) k))) (first_occurrences (map fst es))"
    by (simp add: new_Map_keys new_Map_lookup)
  also have "\<dots> = map (\<lambda>k. (k, last_value k es)) (first_occurrences (map fst es))"
    by (rule map_cong) (auto simp: set_first_occurrences map_of_rev_last_value)
  finally show ?thesis .
qed

lemma last_value_in:
  assumes "k \<in> fst ` set es"
  shows "(k, last_value k es) \<in> set es"
proof -
  from assms have ne: "filter (\<lambda>e. fst e = k) es \<noteq> []"
    by (auto simp: filter_empty_conv)
  then have "last (filter (\<lambda>e. fst e = k) es) \<in> set (filter (\<lambda>e. fst e = k) es)"
    by (rule last_in_set)
  then have "last (filter (\<lambda>e. fst e = k) es) \<in> set es"
    and "fst (last (filter (\<lambda>e. fst e = k) es)) = k" by auto
  then show ?thesis unfolding last_value_def by (metis prod.collapse)
qed

lemma one_entry_per_key:
  "distinct (map fst m) \<Longrightarrow> length (filter (\<lambda>e. fst e = k) m) \<le> 1"
proof (induction m)
  case Nil
  show ?case by simp
next
  case (Cons e m)
  show ?case
  proof (cases "fst e = k")
    case True
    with Cons.prems have "k \<notin> fst ` set m" by auto
    then have "filter (\<lambda>e. fst e = k) m = []" by (auto simp: filter_empty_conv)
    with True show ?thesis by simp
  next
    case False
    with Cons show ?thesis by simp
  qed
qed

section \<open>Properties of the fan-out search\<close>

lemma entry_cases:
  "meal_entry i meal = (KNull, JNull) \<or>
   (fst (meal_entry i meal) \<noteq> KNull \<and> snd (meal_entry i meal) = meal \<and> meal \<noteq> JNull
      \<and> truthy_opt (opt_prop meal ''idMeal''))"
proof (cases "opt_prop meal ''idMeal''")
  case None
  then show ?thesis by (simp add: meal_entry_def)
next
  case (Some v)
  then have "meal \<noteq> JNull" by auto
  with Some show ?thesis by (cases v) (auto simp: meal_entry_def)
qed

lemma meal_entries_cases:
  assumes "(k, v) \<in> set (meal_entries all)"
  shows "(k = KNull \<and> v = JNull) \<or>
         (k \<noteq> KNull \<and> v \<noteq> JNull \<and> truthy_opt (opt_prop v ''idMeal''))"
proof -
  from assms obtain i meal where "(k, v) = meal_entry i meal"
    by (auto simp: meal_entries_def)
  with entry_cases [of i meal] show ?thesis by (metis fst_conv snd_conv)
qed

lemma onlyOne_eq:
  "onlyOne all =
     map (\<lambda>k. last_value k (meal_entries all))
       (filter (\<lambda>k. k \<noteq> KNull) (first_occurrences (map fst (meal_entries all))))"
proof -
  let ?es = "meal_entries all"
  have *: "last_value k ?es \<noteq> JNull \<longleftrightarrow> k \<noteq> KNull"
    if "k \<in> set (first_occurrences (map fst ?es))" for k
  proof -
    from that have "k \<in> fst ` set ?es" by (simp add: set_first_occurrences)
    then have "(k, last_value k ?es) \<in> set ?es" by (rule last_value_in)
    from meal_entries_cases [OF this] show ?thesis by auto
  qed
  have "onlyOne all = filter (\<lambda>meal. meal \<noteq> JNull)
          (map (\<lambda>k. last_value k ?es) (first_occurrences (map fst ?es)))"
    by (simp add: onlyOne_def new_Map_eq [of ?es] o_def)
  also have "\<dots> = map (\<lambda>k. last_value k ?es)
          (filter (\<lambda>k. last_value k ?es \<noteq> JNull) (first_occurrences (map fst ?es)))"
    by (simp add: filter_map o_def)
  also have "filter (\<lambda>k. last_value k ?es \<noteq> JNull) (first_occurrences (map fst ?es))
           = filter (\<lambda>k. k \<noteq> KNull) (first_occurrences (map fst ?es))"
    by (rule filter_cong) (simp_all add: *)
  finally show ?thesis .
qed

lemma onlyOne_has_id:
  assumes "meal \<in> set (onlyOne all)"
  shows "truthy_opt (opt_prop meal ''idMeal'')"
proof -
  let ?es = "meal_entries all"
  from assms obtain k where k: "k \<in> set (first_occurrences (map fst ?es))" "k \<noteq> KNull"
    and m: "meal = last_value k ?es"
    by (auto simp: onlyOne_eq)
  from k have "k \<in> fst ` set ?es" by (simp add: set_first_occurrences)
  then have "(k, meal) \<in> set ?es" unfolding m by (rule last_value_in)
  from meal_entries_cases [OF this] k show ?thesis by simp
qed

lemma call_failed_empty: "call_failed outcome \<Longrightarrow> letter_call outcome = JArr []"
  by (auto simp: call_failed_def letter_call_def letter_try_def
      split: fetch_outcome.splits response_body.splits)

lemma spread_letter_call:
  "spread (letter_call outcome) = (if call_failed outcome then [] else records_of outcome)"
proof (cases "call_failed outcome")
  case True
  then show ?thesis by (simp add: call_failed_empty)
next
  case False
  then obtain r info where o: "outcome = Responded r" and r: "ok r" "body r = Decoded info"
    and n: "info \<noteq> JNull"
    by (auto simp: call_failed_def split: fetch_outcome.splits response_body.splits)
  from n have "get_prop info ''meals'' = Inr (opt_prop info ''meals'')"
    by (cases info) simp_all
  with False o r show ?thesis
    by (simp add: letter_call_def letter_try_def records_of_def split: option.splits)
qed

lemma concat_succeeded:
  assumes "\<And>x. x \<in> set xs \<Longrightarrow> f x = (if P x then g x else [])"
  shows "concat (map f xs) = concat (map g (filter P xs))"
  using assms by (induction xs) auto

lemma flat_succeeded:
  "flat (letter_results net letters) =
     concat (map (\<lambda>(i, letter). records_of (net i (letter_url letter)))
       (filter (\<lambda>(i, letter). \<not> call_failed (net i (letter_url letter)))
          (enumerate 0 letters)))"
  unfolding flat_def letter_results_def map_map
  by (rule concat_succeeded) (auto simp: spread_letter_call)

lemma key_of_eq: "key_of i v = key_of j w \<Longrightarrow> v = w \<or> i = j"
  by (cases v; cases w) simp_all

lemma meal_entries_origin:
  assumes "(k, v) \<in> set (meal_entries all)" and "k \<noteq> KNull"
  shows "\<exists>i w. i < length all \<and> all ! i = v \<and> opt_prop v ''idMeal'' = Some w \<and>
               truthy w \<and> k = key_of i w"
proof -
  from assms(1) obtain i meal where i: "i < length all" "all ! i = meal"
    and e: "(k, v) = meal_entry i meal"
    by (auto simp: meal_entries_def in_set_enumerate_eq)
  from e assms(2) obtain w where "opt_prop meal ''idMeal'' = Some w" "truthy w"
    "k = key_of i w" "v = meal"
    by (auto simp: meal_entry_def split: option.splits if_splits)
  with i show ?thesis by auto
qed

lemma meal_entries_member:
  assumes "i < length all" and "opt_prop (all ! i) ''idMeal'' = Some w" and "truthy w"
  shows "(key_of i w, all ! i) \<in> set (meal_entries all)" and "key_of i w \<noteq> KNull"
proof -
  have "(i, all ! i) \<in> set (enumerate 0 all)"
    using assms(1) by (simp add: in_set_enumerate_eq)
  then have "meal_entry i (all ! i) \<in> set (meal_entries all)"
    unfolding meal_entries_def by force
  then show "(key_of i w, all ! i) \<in> set (meal_entries all)"
    using assms(2,3) by (simp add: meal_entry_def)
  show "key_of i w \<noteq> KNull" using assms(3) by (cases w) simp_all
qed

lemma onlyOne_subset:
  "set (onlyOne all) \<subseteq> {m \<in> set all. truthy_opt (opt_prop m ''idMeal'')}"
proof
  fix meal
  assume m: "meal \<in> set (onlyOne all)"
  let ?es = "meal_entries all"
  from m obtain k where k: "k \<in> set (first_occurrences (map fst ?es))" "k \<noteq> KNull"
    and v: "meal = last_value k ?es"
    by (auto simp: onlyOne_eq)
  from k have "k \<in> fst ` set ?es" by (simp add: set_first_occurrences)
  then have "(k, meal) \<in> set ?es" unfolding v by (rule last_value_in)
  from meal_entries_origin [OF this k(2)] have "meal \<in> set all" by auto
  with onlyOne_has_id [OF m] show "meal \<in> {m \<in> set all. truthy_opt (opt_prop m ''idMeal'')}"
    by simp
qed

lemma onlyOne_covers:
  assumes "m \<in> set all" and "truthy_opt (opt_prop m ''idMeal'')"
  shows "\<exists>m' \<in> set (onlyOne all). opt_prop m' ''idMeal'' = opt_prop m ''idMeal''"
proof -
  let ?es = "meal_entries all"
  from assms(1) obtain i where i: "i < length all" "all ! i = m"
    by (auto simp: in_set_conv_nth)
  from assms(2) obtain w where w: "opt_prop m ''idMeal'' = Some w" "truthy w"
    by (cases "opt_prop m ''idMeal''") auto
  let ?k = "key_of i w"
  from meal_entries_member [of i all w] i w
  have mem: "(?k, m) \<in> set ?es" and nn: "?k \<noteq> KNull" by auto
  from mem have kin: "?k \<in> fst ` set ?es" by force
  let ?m' = "last_value ?k ?es"
  have "(?k, ?m') \<in> set ?es" using kin by (rule last_value_in)
  from meal_entries_origin [OF this nn] obtain j w' where j: "j < length all" "all ! j = ?m'"
    and w': "opt_prop ?m' ''idMeal'' = Some w'" "?k = key_of j w'"
    by auto
  from key_of_eq [OF w'(2)] have "w = w' \<or> i = j" .
  then have same: "opt_prop ?m' ''idMeal'' = opt_prop m ''idMeal''"
  proof
    assume "w = w'"
    with w w' show ?thesis by simp
  next
    assume "i = j"
    with i j show ?thesis by simp
  qed
  from kin nn have "?m' \<in> set (onlyOne all)"
    by (auto simp: onlyOne_eq set_first_occurrences)
  with same show ?thesis by blast
qed

lemmas fanout_defs =
  searchMealsByFirstLetter_def letter_results_def enumerate_eq_zip ok_response_def
  letter_call_def letter_try_def ok_def flat_def onlyOne_def meal_entries_def meal_entry_def
  new_Map_def

text \<open>
  Claim C1, as amended. For every list of keys the fan-out search concatenates the
  per-key results in fan-out order and de-duplicates them by record id: each id occurs
  exactly once in the output, at the place of its first occurrence in the concatenation,
  and the record kept for an id is the last one with that id in the concatenation.
\<close>

theorem fanout_dedup_keeps_last:
  "(let es = meal_entries (flat (letter_results net letters));
        ids = filter (\<lambda>k. k \<noteq> KNull) (first_occurrences (map fst es))
    in distinct ids \<and>
       searchMealsByFirstLetter net letters = map (\<lambda>k. last_value k es) ids)"
  by (simp add: Let_def searchMealsByFirstLetter_def onlyOne_eq distinct_first_occurrences)

text \<open>
  The amended claim C1 at two letters whose results hold different records under one id:
  the record of the second letter is returned.
\<close>

theorem fanout_dedup_keeps_last_witness:
  "searchMealsByFirstLetter dup_net [''a'', ''b''] = [meal_b]"
  using fanout_dedup_keeps_last [of dup_net "[''a'', ''b'']"]
  by (simp add: fanout_defs dup_net_def meal_a_def meal_b_def)

text \<open>
  Claim C1 as stated fails: both partial results hold a record with the id 52772, the
  first one seen is \<open>meal_a\<close>, and the search returns \<open>meal_b\<close>.
\<close>

theorem fanout_keeps_first_counterexample:
  "flat (letter_results dup_net [''a'', ''b'']) = [meal_a, meal_b] \<and>
   opt_prop meal_a ''idMeal'' = opt_prop meal_b ''idMeal'' \<and>
   keep_first_spec (flat (letter_results dup_net [''a'', ''b''])) = [meal_a] \<and>
   searchMealsByFirstLetter dup_net [''a'', ''b''] = [meal_b] \<and>
   meal_a \<noteq> meal_b"
  by (simp add: fanout_defs dup_net_def meal_a_def meal_b_def)

text \<open>
  Claim C4, as amended. A per-key call that fails contributes the empty partial result
  and the batch is never aborted: the merged result is made of the records of the calls
  that succeeded alone. It holds one record for each id among these records, at the
  place of the id's first occurrence in fan-out order and with the last record of that
  id; every record in it is a record of a succeeding call with a truthy \<open>idMeal\<close>, and
  every id of such a record is present. Records without a truthy \<open>idMeal\<close> are left out.
\<close>

theorem fanout_partial_tolerance:
  "(let succeeded = filter (\<lambda>(i, letter). \<not> call_failed (net i (letter_url letter)))
                      (enumerate 0 letters);
        records = concat (map (\<lambda>(i, letter). records_of (net i (letter_url letter))) succeeded);
        es = meal_entries records;
        ids = filter (\<lambda>k. k \<noteq> KNull) (first_occurrences (map fst es));
        merged = searchMealsByFirstLetter net letters
    in (call_failed outcome \<longrightarrow> letter_call outcome = JArr []) \<and>
       distinct ids \<and>
       merged = map (\<lambda>k. last_value k es) ids \<and>
       set merged \<subseteq> {m \<in> set records. truthy_opt (opt_prop m ''idMeal'')} \<and>
       (\<forall>m \<in> set records. truthy_opt (opt_prop m ''idMeal'') \<longrightarrow>
          (\<exists>m' \<in> set merged. opt_prop m' ''idMeal'' = opt_prop m ''idMeal'')))"
proof -
  let ?records = "concat (map (\<lambda>(i, letter). records_of (net i (letter_url letter)))
      (filter (\<lambda>(i, letter). \<not> call_failed (net i (letter_url letter))) (enumerate 0 letters)))"
  have merged: "searchMealsByFirstLetter net letters = onlyOne ?records"
    by (simp add: searchMealsByFirstLetter_def flat_succeeded)
  have 1: "call_failed outcome \<longrightarrow> letter_call outcome = JArr []"
    by (simp add: call_failed_empty)
  have 2: "distinct (filter (\<lambda>k. k \<noteq> KNull)
             (first_occurrences (map fst (meal_entries ?records))))"
    by (simp add: distinct_first_occurrences)
  have 3: "searchMealsByFirstLetter net letters =
             map (\<lambda>k. last_value k (meal_entries ?records))
               (filter (\<lambda>k. k \<noteq> KNull) (first_occurrences (map fst (meal_entries ?records))))"
    unfolding merged by (rule onlyOne_eq)
  have 4: "set (searchMealsByFirstLetter net letters)
             \<subseteq> {m \<in> set ?records. truthy_opt (opt_prop m ''idMeal'')}"
    unfolding merged by (rule onlyOne_subset)
  have 5: "\<forall>m \<in> set ?records. truthy_opt (opt_prop m ''idMeal'') \<longrightarrow>
             (\<exists>m' \<in> set (searchMealsByFirstLetter net letters).
                opt_prop m' ''idMeal'' = opt_prop m ''idMeal'')"
    unfolding merged using onlyOne_covers by blast
  from 1 2 3 4 5 show ?thesis unfolding Let_def by (intro conjI)
qed

text \<open>
  The amended claim C4 at three letters of which the second call is rejected: the result
  holds the records of the first and the third call.
\<close>

theorem fanout_partial_tolerance_witness:
  "call_failed (Rejected fetch_failed) \<and>
   letter_call (Rejected fetch_failed) = JArr [] \<and>
   call_failed (partial_net 1 (letter_url ''b'')) \<and>
   searchMealsByFirstLetter partial_net [''a'', ''b'', ''c''] = [meal_a, meal_c]"
proof -
  have f: "call_failed (Rejected fetch_failed)" by (simp add: call_failed_def)
  have p: "call_failed (partial_net 1 (letter_url ''b''))"
    by (simp add: call_failed_def partial_net_def)
  have t: "truthy_opt (opt_prop meal_a ''idMeal'')" "truthy_opt (opt_prop meal_c ''idMeal'')"
    by (simp_all add: meal_a_def meal_c_def)
  have r: "concat (map (\<lambda>(i, letter). records_of (partial_net i (letter_url letter)))
      (filter (\<lambda>(i, letter). \<not> call_failed (partial_net i (letter_url letter)))
         (enumerate 0 [''a'', ''b'', ''c'']))) = [meal_a, meal_c]"
    by (simp add: enumerate_eq_zip call_failed_def partial_net_def ok_response_def ok_def
        records_of_def)
  have e: "meal_entries [meal_a, meal_c] = [(KStr ''52772'', meal_a), (KStr ''52893'', meal_c)]"
    by (simp add: meal_entries_def enumerate_eq_zip meal_entry_def meal_a_def meal_c_def)
  from fanout_partial_tolerance [of partial_net "[''a'', ''b'', ''c'']" "Rejected fetch_failed"]
  have "letter_call (Rejected fetch_failed) = JArr [] \<and>
        searchMealsByFirstLetter partial_net [''a'', ''b'', ''c''] = [meal_a, meal_c]"
    unfolding Let_def r e using f by (simp add: last_value_def)
  with f p show ?thesis by simp
qed

text \<open>
  Claim C4 as stated fails: the second of three calls is rejected, the first one succeeds
  with a record that has no id, and this record of a succeeding call is not in the merged
  result, which therefore is not the de-duplicated union of the succeeding calls'
  records.
\<close>

theorem fanout_union_counterexample:
  "call_failed (mixed_net 1 (letter_url ''b'')) \<and>
   \<not> call_failed (mixed_net 0 (letter_url ''a'')) \<and>
   \<not> call_failed (mixed_net 2 (letter_url ''c'')) \<and>
   records_of (mixed_net 0 (letter_url ''a'')) = [nameless, meal_a] \<and>
   records_of (mixed_net 2 (letter_url ''c'')) = [meal_c] \<and>
   keep_first_spec [nameless, meal_a, meal_c] = [nameless, meal_a, meal_c] \<and>
   searchMealsByFirstLetter mixed_net [''a'', ''b'', ''c''] = [meal_a, meal_c] \<and>
   nameless \<notin> set (searchMealsByFirstLetter mixed_net [''a'', ''b'', ''c''])"
  by (simp add: fanout_defs call_failed_def records_of_def mixed_net_def fetch_failed_def
      nameless_def meal_a_def meal_c_def)

text \<open>
  Claim C10. A record without an \<open>idMeal\<close> field (or with a falsy one) is never in the
  returned list, whatever call produced it; every such record becomes the same entry
  \<open>null \<mapsto> null\<close> of the Map, which holds at most one entry under the key \<open>null\<close>.
\<close>

theorem idless_records_dropped:
  assumes "\<not> truthy_opt (opt_prop meal ''idMeal'')"
  shows "meal \<notin> set (searchMealsByFirstLetter net letters) \<and>
         meal_entry i meal = (KNull, JNull) \<and>
         length (filter (\<lambda>e. fst e = KNull) (new_Map (meal_entries all))) \<le> 1"
proof -
  have "meal \<notin> set (searchMealsByFirstLetter net letters)"
    using assms onlyOne_has_id by (auto simp: searchMealsByFirstLetter_def)
  moreover have "meal_entry i meal = (KNull, JNull)"
    using assms entry_cases [of i meal] by auto
  moreover have "length (filter (\<lambda>e. fst e = KNull) (new_Map (meal_entries all))) \<le> 1"
    by (rule one_entry_per_key) (simp add: new_Map_keys distinct_first_occurrences)
  ultimately show ?thesis by simp
qed

text \<open>
  Claim C10 at a successful call whose list holds a record without an id before a
  record with one: only the second is returned.
\<close>

theorem idless_records_dropped_witness:
  "\<not> truthy_opt (opt_prop nameless ''idMeal'') \<and>
   flat (letter_results nameless_net [''s'']) = [nameless, meal_a] \<and>
   searchMealsByFirstLetter nameless_net [''s''] = [meal_a] \<and>
   nameless \<notin> set (searchMealsByFirstLetter nameless_net [''s'']) \<and>
   meal_entry 0 nameless = (KNull, JNull)"
proof -
  have h: "\<not> truthy_opt (opt_prop nameless ''idMeal'')" by (simp add: nameless_def)
  have e: "flat (letter_results nameless_net [''s'']) = [nameless, meal_a]"
    "searchMealsByFirstLetter nameless_net [''s''] = [meal_a]"
    by (simp_all add: fanout_defs nameless_net_def nameless_def meal_a_def)
  from idless_records_dropped [OF h, of nameless_net "[''s'']" 0] h e show ?thesis by simp
qed

section \<open>Properties of the retry lookup\<close>

lemma transport_failed_attempt: "transport_failed outcome \<Longrightarrow> attempt_failed outcome"
  by (auto simp: transport_failed_def attempt_failed_def lookup_attempt_def
      split: fetch_outcome.splits)

lemma failed_retry:
  assumes "attempt_failed (net n (lookup_url meal_id))" and "1 < attempts"
  shows "getMealById_from net meal_id attempts n =
           after_wait (lookup_url meal_id) (getMealById_from net meal_id (attempts - 1) (Suc n))"
  using assms
  by (subst getMealById_from.simps) (auto simp: attempt_failed_def split: attempt.splits)

lemma failed_last:
  assumes "attempt_failed (net n (lookup_url meal_id))" and "attempts \<le> 1"
  shows "\<exists>e. getMealById_from net meal_id attempts n =
           (JNull, [EvFetch (lookup_url meal_id), EvConsoleError e])"
  using assms
  by (subst getMealById_from.simps) (auto simp: attempt_failed_def split: attempt.splits)

lemma returned_now:
  assumes "lookup_attempt (net n (lookup_url meal_id)) = Returned v"
  shows "getMealById_from net meal_id attempts n = (v, [EvFetch (lookup_url meal_id)])"
  using assms by (subst getMealById_from.simps) simp

lemma retry_skips:
  assumes "\<forall>i<k. attempt_failed (net (n + i) (lookup_url meal_id))" and "int k < attempts"
  shows "fst (getMealById_from net meal_id attempts n) =
         fst (getMealById_from net meal_id (attempts - int k) (n + k))"
  using assms
proof (induction k arbitrary: n attempts)
  case 0
  then show ?case by simp
next
  case (Suc k)
  from Suc.prems have f: "attempt_failed (net n (lookup_url meal_id))" and a: "1 < attempts"
    by (auto dest: spec [of _ 0])
  have rest: "\<forall>i<k. attempt_failed (net (Suc n + i) (lookup_url meal_id))"
    using Suc.prems(1) by (auto dest: spec [of _ "Suc _"])
  have "fst (getMealById_from net meal_id attempts n) =
        fst (getMealById_from net meal_id (attempts - 1) (Suc n))"
    by (simp add: failed_retry [where net = net and n = n, OF f a] after_wait_def)
  also have "\<dots> = fst (getMealById_from net meal_id (attempts - 1 - int k) (Suc n + k))"
    using Suc.prems(2) by (intro Suc.IH [where n = "Suc n", OF rest]) simp
  finally show ?case by (simp add: algebra_simps)
qed

text \<open>
  Claim C3. If every remote attempt fails by transport (the call rejects or the status is
  not ok), the lookup called with \<open>attempts = 2\<close> makes exactly two calls with one wait of
  1000 ms between them, logs, and returns \<open>null\<close>; the failure is not raised.
\<close>

theorem retry_exhaustion:
  assumes "\<forall>n. transport_failed (net n (lookup_url meal_id))"
  shows "\<exists>e. getMealById net meal_id 2 =
           (JNull, [EvFetch (lookup_url meal_id), EvSleep 1000,
                    EvFetch (lookup_url meal_id), EvConsoleError e])"
proof -
  have f0: "attempt_failed (net 0 (lookup_url meal_id))"
    and f1: "attempt_failed (net (Suc 0) (lookup_url meal_id))"
    using assms by (simp_all add: transport_failed_attempt)
  from failed_last [where net = net and n = "Suc 0" and attempts = 1, OF f1] obtain e where
    "getMealById_from net meal_id 1 (Suc 0) =
       (JNull, [EvFetch (lookup_url meal_id), EvConsoleError e])" by auto
  with failed_retry [where net = net and n = 0 and attempts = 2, OF f0] show ?thesis
    by (auto simp: getMealById_def after_wait_def)
qed

text \<open>Claim C3 on a network that rejects every call.\<close>

theorem retry_exhaustion_witness:
  "(\<forall>n. transport_failed (down_net n (lookup_url ''52772''))) \<and>
   (\<exists>e. getMealById down_net ''52772'' 2 =
      (JNull, [EvFetch (lookup_url ''52772''), EvSleep 1000,
               EvFetch (lookup_url ''52772''), EvConsoleError e]))"
proof -
  have h: "\<forall>n. transport_failed (down_net n (lookup_url ''52772''))"
    by (simp add: transport_failed_def down_net_def)
  from retry_exhaustion [where net = down_net and meal_id = "''52772''", OF h] h
  show ?thesis by blast
qed

text \<open>
  Claim C9. When an attempt of the lookup succeeds (the attempts before it failed, it is
  within the number of attempts, its status is ok and its body is decoded), the lookup
  returns the first element of the result list \<open>meals\<close>, and \<open>null\<close> when that list is
  empty, \<open>null\<close> or absent. A record is a JSON object and hence truthy.
\<close>

theorem lookup_returns_first_element:
  assumes "\<forall>i<k. attempt_failed (net i (lookup_url meal_id))"
    and "k = 0 \<or> int k < attempts"
    and "net k (lookup_url meal_id) = Responded r" and "ok r" and "body r = Decoded data"
    and "get_prop data ''meals'' = Inr m"
  shows "(\<forall>x rest. m = Some (JArr (x # rest)) \<and> truthy x \<longrightarrow>
            fst (getMealById net meal_id attempts) = x) \<and>
         (\<forall>fs rest. m = Some (JArr (JObj fs # rest)) \<longrightarrow>
            fst (getMealById net meal_id attempts) = JObj fs) \<and>
         (m = Some (JArr []) \<or> m = Some JNull \<or> m = None \<longrightarrow>
            fst (getMealById net meal_id attempts) = JNull)"
proof -
  let ?v = "case m of None \<Rightarrow> JNull
            | Some ms \<Rightarrow> if truthy ms then or_null (first_elem ms) else JNull"
  have ret: "lookup_attempt (net k (lookup_url meal_id)) = Returned ?v"
    using assms(3-6) by (simp add: lookup_attempt_def split: option.splits)
  have "fst (getMealById net meal_id attempts) = ?v"
  proof (cases "k = 0")
    case True
    with ret show ?thesis by (simp add: getMealById_def returned_now)
  next
    case False
    with assms(2) have lt: "int k < attempts" by simp
    from assms(1) have "\<forall>i<k. attempt_failed (net (0 + i) (lookup_url meal_id))" by simp
    from retry_skips [where net = net and n = 0, OF this lt] ret show ?thesis
      by (simp add: getMealById_def returned_now)
  qed
  then show ?thesis by auto
qed

text \<open>
  Claim C9 where the first call is answered with status 503 and the second with one
  record: the record is returned.
\<close>

theorem lookup_returns_first_element_witness:
  "attempt_failed (flaky_net 0 (lookup_url ''52772'')) \<and>
   flaky_net 1 (lookup_url ''52772'') = ok_response (JObj [(''meals'', JArr [meal_a])]) \<and>
   fst (getMealById flaky_net ''52772'' 2) = meal_a"
proof -
  let ?r = "\<lparr>status = 200, body = Decoded (JObj [(''meals'', JArr [meal_a])])\<rparr>"
  have 0: "attempt_failed (flaky_net 0 (lookup_url ''52772''))"
    by (simp add: attempt_failed_def flaky_net_def lookup_attempt_def ok_def)
  then have 1: "\<forall>i<Suc 0. attempt_failed (flaky_net i (lookup_url ''52772''))" by simp
  have 2: "Suc 0 = 0 \<or> int (Suc 0) < 2" by simp
  have 3: "flaky_net (Suc 0) (lookup_url ''52772'') = Responded ?r"
    by (simp add: flaky_net_def ok_response_def)
  have 4: "ok ?r" by (simp add: ok_def)
  have 5: "body ?r = Decoded (JObj [(''meals'', JArr [meal_a])])" by simp
  have 6: "get_prop (JObj [(''meals'', JArr [meal_a])]) ''meals'' = Inr (Some (JArr [meal_a]))"
    by simp
  have t: "truthy meal_a" by (simp add: meal_a_def)
  from lookup_returns_first_element [where net = flaky_net and k = "Suc 0", OF 1 2 3 4 5 6] t
  have "fst (getMealById flaky_net ''52772'' 2) = meal_a" by blast
  with 0 3 show ?thesis by (simp add: ok_response_def)
qed

section \<open>Properties of the list-returning operations\<close>

text \<open>
  Claim C8. When the response is ok and the \<open>meals\<close> field of its decoded body is \<open>null\<close>
  or absent, the name search, the letter search and the ingredient search (its response
  settling before the timer) return the empty list.
\<close>

theorem null_or_absent_list_is_empty:
  assumes "ok r" and "body r = Decoded data"
    and "get_prop data ''meals'' = Inr None \<or> get_prop data ''meals'' = Inr (Some JNull)"
  shows "(net 0 (name_url enc query) = Responded r \<longrightarrow>
            searchMealsByName enc net query = JArr []) \<and>
         (net 0 (letter_url letter) = Responded r \<longrightarrow>
            letter_call (net 0 (letter_url letter)) = JArr [] \<and>
            searchMealsByFirstLetter net [letter] = []) \<and>
         (net 0 (ingredient_url enc ingredient) = Responded r \<and>
          clock 0 (ingredient_url enc ingredient) < timer_delay timeoutMs \<longrightarrow>
            getMealsByIngredient enc net clock ingredient timeoutMs = JArr [])"
  using assms
  by (auto simp: searchMealsByName_def searchMealsByName_try_def letter_call_def letter_try_def
      searchMealsByFirstLetter_def letter_results_def flat_def onlyOne_def meal_entries_def
      new_Map_def getMealsByIngredient_def race_def ingredient_call_def)

text \<open>Claim C8 on a service that answers every call with \<open>{"meals": null}\<close>.\<close>

theorem null_or_absent_list_is_empty_witness:
  "get_prop (JObj [(''meals'', JNull)]) ''meals'' = Inr (Some JNull) \<and>
   searchMealsByName plain_enc no_meals_net ''pie'' = JArr [] \<and>
   searchMealsByFirstLetter no_meals_net [''p''] = [] \<and>
   quick_clock 0 (ingredient_url plain_enc ''egg'') < timer_delay 5000 \<and>
   getMealsByIngredient plain_enc no_meals_net quick_clock ''egg'' 5000 = JArr []"
proof -
  let ?r = "\<lparr>status = 200, body = Decoded (JObj [(''meals'', JNull)])\<rparr>"
  have 1: "ok ?r" by (simp add: ok_def)
  have 2: "body ?r = Decoded (JObj [(''meals'', JNull)])" by simp
  have 3: "get_prop (JObj [(''meals'', JNull)]) ''meals'' = Inr None \<or>
           get_prop (JObj [(''meals'', JNull)]) ''meals'' = Inr (Some JNull)" by simp
  have n: "no_meals_net 0 url = Responded ?r" for url
    by (simp add: no_meals_net_def ok_response_def)
  have c: "quick_clock 0 (ingredient_url plain_enc ''egg'') < timer_delay 5000"
    by (simp add: quick_clock_def timer_delay_def)
  from null_or_absent_list_is_empty [OF 1 2 3, where net = no_meals_net and enc = plain_enc
      and query = "''pie''" and letter = "''p''" and ingredient = "''egg''"
      and clock = quick_clock and timeoutMs = 5000] n c
  show ?thesis by simp
qed

section \<open>Properties of the timeout race\<close>

text \<open>
  Claim C2, as amended. The results of the search are a list, the timeout sentinel and
  the failure sentinel, three values that are pairwise different. When the timer settles
  before the remote call the result is the timeout sentinel and not an empty list. When
  the call settles first: a rejected call or an undecodable body (whose error does not
  carry the timer's message) gives the failure sentinel; a response with a non-ok status
  gives the empty list, as an empty success does; an ok response gives its list
  \<open>meals\<close>, or the empty list.
\<close>

theorem timeout_race_outcomes:
  "(let url = ingredient_url enc ingredient;
        result = getMealsByIngredient enc net clock ingredient timeoutMs
    in (timer_delay timeoutMs < clock 0 url \<longrightarrow>
          result = JStr ''took too long'' \<and> result \<noteq> JArr []) \<and>
       (clock 0 url < timer_delay timeoutMs \<and>
        (net 0 url = Rejected e \<or> (net 0 url = Responded r \<and> ok r \<and> body r = Malformed e)) \<and>
        message e \<noteq> timeout_message \<longrightarrow>
          result = JStr ''An unexpected error has been occurred'') \<and>
       (clock 0 url < timer_delay timeoutMs \<and> net 0 url = Responded r \<and> \<not> ok r \<longrightarrow>
          result = JArr []) \<and>
       (clock 0 url < timer_delay timeoutMs \<and> net 0 url = Responded r \<and> ok r \<and>
        body r = Decoded data \<and> get_prop data ''meals'' = Inr m \<longrightarrow>
          result = or_empty m) \<and>
       JStr ''took too long'' \<noteq> JStr ''An unexpected error has been occurred'' \<and>
       JArr xs \<noteq> JStr ''took too long'' \<and>
       JArr xs \<noteq> JStr ''An unexpected error has been occurred'')"
  by (auto simp: Let_def getMealsByIngredient_def race_def ingredient_call_def
      timeout_message_def)

text \<open>
  The amended claim C2 with a timeout of 5000 ms: a call that needs 9000 ms gives the
  timeout sentinel, a rejected call that needs 100 ms the failure sentinel, and a call
  answered after 100 ms with status 500 the empty list.
\<close>

theorem timeout_race_outcomes_witness:
  "timer_delay 5000 < slow_clock 0 (ingredient_url plain_enc ''egg'') \<and>
   getMealsByIngredient plain_enc no_meals_net slow_clock ''egg'' 5000 = JStr ''took too long'' \<and>
   quick_clock 0 (ingredient_url plain_enc ''egg'') < timer_delay 5000 \<and>
   message fetch_failed \<noteq> timeout_message \<and>
   getMealsByIngredient plain_enc down_net quick_clock ''egg'' 5000 =
     JStr ''An unexpected error has been occurred'' \<and>
   getMealsByIngredient plain_enc error_net quick_clock ''egg'' 5000 = JArr [] \<and>
   getMealsByIngredient plain_enc no_meals_net quick_clock ''egg'' 5000 = JArr []"
proof -
  let ?r500 = "\<lparr>status = 500, body = Decoded (JObj [(''error'', JStr ''internal'')])\<rparr>"
  let ?r200 = "\<lparr>status = 200, body = Decoded (JObj [(''meals'', JNull)])\<rparr>"
  have s: "timer_delay 5000 < slow_clock 0 (ingredient_url plain_enc ''egg'')"
    by (simp add: slow_clock_def timer_delay_def)
  have q: "quick_clock 0 (ingredient_url plain_enc ''egg'') < timer_delay 5000"
    by (simp add: quick_clock_def timer_delay_def)
  have m: "message fetch_failed \<noteq> timeout_message"
    by (simp add: fetch_failed_def timeout_message_def)
  have d: "down_net 0 url = Rejected fetch_failed" for url by (simp add: down_net_def)
  have e: "error_net 0 url = Responded ?r500" "\<not> ok ?r500" for url
    by (simp_all add: error_net_def ok_def)
  have n: "no_meals_net 0 url = Responded ?r200" "ok ?r200"
    "body ?r200 = Decoded (JObj [(''meals'', JNull)])"
    "get_prop (JObj [(''meals'', JNull)]) ''meals'' = Inr (Some JNull)" for url
    by (simp_all add: no_meals_net_def ok_response_def ok_def)
  have 1: "getMealsByIngredient plain_enc no_meals_net slow_clock ''egg'' 5000 = JStr ''took too long''"
    using timeout_race_outcomes [where enc = plain_enc and net = no_meals_net
        and clock = slow_clock and ingredient = "''egg''" and timeoutMs = 5000] s
    by (simp add: Let_def)
  have 2: "getMealsByIngredient plain_enc down_net quick_clock ''egg'' 5000 =
             JStr ''An unexpected error has been occurred''"
    using timeout_race_outcomes [where enc = plain_enc and net = down_net
        and clock = quick_clock and ingredient = "''egg''" and timeoutMs = 5000
        and e = fetch_failed] q m d
    by (simp add: Let_def)
  have 3: "getMealsByIngredient plain_enc error_net quick_clock ''egg'' 5000 = JArr []"
    using timeout_race_outcomes [where enc = plain_enc and net = error_net
        and clock = quick_clock and ingredient = "''egg''" and timeoutMs = 5000
        and r = ?r500] q e
    by (simp add: Let_def)
  have 4: "getMealsByIngredient plain_enc no_meals_net quick_clock ''egg'' 5000 = JArr []"
    using timeout_race_outcomes [where enc = plain_enc and net = no_meals_net
        and clock = quick_clock and ingredient = "''egg''" and timeoutMs = 5000
        and r = ?r200 and data = "JObj [(''meals'', JNull)]" and m = "Some JNull"] q n
    by (simp add: Let_def)
  from s q m 1 2 3 4 show ?thesis by simp
qed

text \<open>
  Claim C2 as stated fails: a call answered with status 500 is a fetch failure, and its
  result is the empty list, the same value as for the empty success \<open>{"meals": null}\<close>.
\<close>

theorem timeout_race_conflation_counterexample:
  "transport_failed (error_net 0 (ingredient_url plain_enc ''egg'')) \<and>
   getMealsByIngredient plain_enc error_net quick_clock ''egg'' 5000 = JArr [] \<and>
   getMealsByIngredient plain_enc no_meals_net quick_clock ''egg'' 5000 = JArr []"
  by (simp add: transport_failed_def error_net_def no_meals_net_def ok_response_def ok_def
      getMealsByIngredient_def race_def timer_delay_def quick_clock_def ingredient_call_def)

section \<open>Properties of the related and the random recipes\<close>

text \<open>
  Claim C5 against the code. \<open>getRandomMeal\<close> calls no endpoint at all: reading the
  unbound identifier \<open>recipe\<close> throws, the \<open>catch\<close> block logs the error and returns the
  empty array, whatever the service would answer. The result is neither the first record
  of the random endpoint nor \<open>null\<close>.
\<close>

theorem getRandomMeal_never_fetches:
  "getRandomMeal enc net =
     (Some (JArr []), [EvConsoleError (JsError ''ReferenceError'' ''recipe is not defined'')])"
  by (simp add: getRandomMeal_def related_try_def related_catch_def)

text \<open>
  Claim C6 against the code. For a recipe with an id and a category (and no field \<open>ok\<close>),
  \<open>getRelatedRecipes\<close> returns \<open>undefined\<close> without calling the category endpoint; and
  for every recipe and limit its result is \<open>undefined\<close> or the empty array, never a
  record of the category.
\<close>

theorem getRelatedRecipes_returns_no_related:
  "getRelatedRecipes enc net dessert 3 = (None, []) \<and>
   (fst (getRelatedRecipes enc net recipe limit) = None \<or>
    fst (getRelatedRecipes enc net recipe limit) = Some (JArr []))"
  by (auto simp: getRelatedRecipes_def related_try_def related_catch_def dessert_def
      split: sum.splits fetch_outcome.splits)

section \<open>Properties of the coordinator\<close>

text \<open>
  Claim C7. If the key has no fresh entry and the producer fails, the coordinator returns
  the producer's failure as it is and leaves the store unchanged; a later call on the
  same key, with any producer, invokes the producer again.
\<close>

theorem producer_failure_leaves_cache:
  assumes "fresh_entry now (store c) key = None"
    and "producer (producer_calls c) = Inl failure"
    and "now \<le> later"
  shows "(let (res, c') = getCachedOrFetch default_ttl key producer now c
          in res = Inl failure \<and> store c' = store c \<and>
             producer_calls c' = Suc (producer_calls c) \<and>
             producer_calls (snd (getCachedOrFetch default_ttl key producer_later later c')) =
               Suc (producer_calls c'))"
proof -
  let ?c' = "c\<lparr>producer_calls := Suc (producer_calls c)\<rparr>"
  from assms(1,2) have run: "getCachedOrFetch default_ttl key producer now c = (Inl failure, ?c')"
    by (simp add: getCachedOrFetch_def)
  from assms(1,3) have "fresh_entry later (store ?c') key = None"
    by (auto simp: fresh_entry_def split: option.splits if_splits)
  then have "producer_calls (snd (getCachedOrFetch default_ttl key producer_later later ?c')) =
               Suc (producer_calls ?c')"
    by (auto simp: getCachedOrFetch_def split: sum.splits)
  with run show ?thesis by simp
qed

text \<open>
  Claim C7 on an empty cache and a failing producer: the failure comes back, and the
  second call is the second invocation of the producer.
\<close>

theorem producer_failure_leaves_cache_witness:
  "fresh_entry 1000 (store empty_coordinator) ''search_pie'' = None \<and>
   failing_producer (producer_calls empty_coordinator) = Inl fetch_failed \<and>
   fst (getCachedOrFetch 60000 ''search_pie'' failing_producer 1000 empty_coordinator) =
     Inl fetch_failed \<and>
   producer_calls (snd (getCachedOrFetch 60000 ''search_pie'' failing_producer 2000
     (snd (getCachedOrFetch 60000 ''search_pie'' failing_producer 1000 empty_coordinator)))) = 2"
proof -
  have 1: "fresh_entry 1000 (store empty_coordinator) ''search_pie'' = None"
    by (simp add: fresh_entry_def empty_coordinator_def)
  have 2: "failing_producer (producer_calls empty_coordinator) = Inl fetch_failed"
    by (simp add: failing_producer_def)
  have 3: "(1000 :: int) \<le> 2000" by simp
  have 0: "producer_calls empty_coordinator = 0" by (simp add: empty_coordinator_def)
  from producer_failure_leaves_cache [where producer = failing_producer
      and c = empty_coordinator and default_ttl = 60000 and producer_later = failing_producer,
      OF 1 2 3] 0 1 2
  show ?thesis by (simp add: case_prod_beta Let_def)
qed

end
